theory Spec2Isabelle
  imports Complex_Main
begin

section \<open>Data model of the notebook\<close>

text \<open>
  The notebook \<^verbatim>\<open>adversarial.ipynb\<close> works on PyTorch tensors. A tensor is modelled
  by the list of its elements (the shape plays no role in the code that is verified),
  with real numbers for its floating-point elements; a class label and a predicted
  class are natural numbers (MNIST labels are 0..9, and an arg-max index is never
  negative). One saved example is the triple
  \<^verbatim>\<open>(init_pred.item(), final_pred.item(), adv_ex)\<close> the loop appends.
\<close>

type_synonym tensor = "real list"

type_synonym label = nat

type_synonym example = "label \<times> label \<times> tensor"

datatype error = ZeroDivisionError

section \<open>The perturbation function\<close>

text \<open>
  \<^verbatim>\<open>
  def fgsm_attack(image, epsilon, data_grad):
      # TODO:  Implement FGSM attack. ...
      perturbed_image = image # replace me!
      return perturbed_image
  \<close>
  The body in the repository is the placeholder of the exercise: it binds
  \<^verbatim>\<open>perturbed_image\<close> to the image and returns it. Neither \<^verbatim>\<open>epsilon\<close> nor
  \<^verbatim>\<open>data_grad\<close> is read. (The parameter \<^verbatim>\<open>image\<close> is written \<open>img\<close>: \<open>image\<close> is
  a constant of HOL.)
\<close>

definition fgsm_attack :: "tensor \<Rightarrow> real \<Rightarrow> tensor \<Rightarrow> tensor" where
  "fgsm_attack img epsilon data_grad = (let perturbed_image = img in perturbed_image)"

subsection \<open>The perturbation as the specification words it\<close>

text \<open>
  For comparison only, following the specification's sentences and not the source:
  \<open>clamp_unit\<close> is the element-wise clamp to the valid input range \<open>[0,1]\<close>, and
  \<open>perturb_spec\<close> is \<^verbatim>\<open>sample + epsilon * elementwise_sign(gradient)\<close>, clamped.
  Nothing in the source computes either of them.
\<close>

definition clamp_unit :: "tensor \<Rightarrow> tensor" where
  "clamp_unit sample = map (\<lambda>x. max 0 (min 1 x)) sample"

definition perturb_spec :: "tensor \<Rightarrow> real \<Rightarrow> tensor \<Rightarrow> tensor" where
  "perturb_spec sample epsilon gradient =
     clamp_unit (map2 (\<lambda>x g. x + epsilon * sgn g) sample gradient)"

text \<open>
  The notebook's text gives the formula the exercise asks for,
  \<^verbatim>\<open>adversarial example = x + epsilon * sign(gradient)\<close>, with no clamp. It is not the
  body of \<^verbatim>\<open>fgsm_attack\<close> in the repository; the worked examples below bind it as
  the attack of the evaluation loop, to reach the loop's branch for a changed prediction.
\<close>

definition fgsm_formula :: "tensor \<Rightarrow> real \<Rightarrow> tensor \<Rightarrow> tensor" where
  "fgsm_formula x epsilon g = map2 (\<lambda>a b. a + epsilon * sgn b) x g"

definition valid_sample :: "tensor \<Rightarrow> bool" where
  "valid_sample sample = list_all (\<lambda>x. 0 \<le> x \<and> x \<le> 1) sample"

section \<open>The model object and the library calls\<close>

text \<open>
  The network is an object of the PyTorch library: its parameters (the weights loaded
  from the checkpoint) and, beside each parameter, the gradient buffer \<^verbatim>\<open>.grad\<close> that
  a backward pass writes. The loop calls three operations of the library on it, which
  are parameters of the model here, with the effects the library documents:
  \<^item> \<^verbatim>\<open>model(data)\<close>, in evaluation mode (\<^verbatim>\<open>model.eval()\<close> switches the dropout layers
    off): reads the parameters and returns the vector of log-probabilities;
  \<^item> \<^verbatim>\<open>model.zero_grad()\<close>: resets the gradient buffers;
  \<^item> \<^verbatim>\<open>loss.backward()\<close> for \<^verbatim>\<open>loss = F.nll_loss(output, target)\<close>: accumulates the
    gradient of the loss into the gradient buffers of the parameters, and leaves the
    gradient with respect to the input in \<^verbatim>\<open>data.grad\<close> (a fresh tensor of every
    iteration, so nothing accumulates there).
  A malformed sample (wrong shape or type) makes the library raise; the specification
  leaves that to the caller, and it is not modelled.
\<close>

record ('p, 'g) net =
  params :: 'p
  grads :: 'g

record ('p, 'g) torch =
  forward :: "'p \<Rightarrow> tensor \<Rightarrow> tensor"
  zero_grad :: "'g \<Rightarrow> 'g"
  backward :: "'p \<Rightarrow> tensor \<Rightarrow> label \<Rightarrow> 'g \<Rightarrow> 'g"
  input_grad :: "'p \<Rightarrow> tensor \<Rightarrow> label \<Rightarrow> tensor"

text \<open>
  \<^verbatim>\<open>output.max(1, keepdim=True)[1]\<close> followed by \<^verbatim>\<open>.item()\<close>: the index of the largest
  log-probability of the one row (the batch size is 1), the first such index when the
  largest value occurs more than once. The network has ten outputs; on an empty row the
  library raises, and the value 0 given here is never used.
\<close>

fun argmax_from :: "tensor \<Rightarrow> nat \<Rightarrow> nat \<Rightarrow> real \<Rightarrow> nat" where
  "argmax_from [] i best best_val = best"
| "argmax_from (x # xs) i best best_val =
     (if best_val < x then argmax_from xs (Suc i) i x
      else argmax_from xs (Suc i) best best_val)"

definition argmax :: "tensor \<Rightarrow> label" where
  "argmax output = (case output of [] \<Rightarrow> 0 | x # xs \<Rightarrow> argmax_from xs 1 0 x)"

section \<open>The evaluation loop\<close>

text \<open>
  The state of the loop of \<^verbatim>\<open>test\<close>: the model object (mutated in place by
  \<^verbatim>\<open>zero_grad\<close> and \<^verbatim>\<open>backward\<close>), the counter \<^verbatim>\<open>correct\<close> and the list
  \<^verbatim>\<open>adv_examples\<close>.
\<close>

record ('p, 'g) loop_state =
  model :: "('p, 'g) net"
  correct :: nat
  adv_examples :: "example list"

text \<open>
  One iteration of \<^verbatim>\<open>for data, target in test_loader\<close>. \<^verbatim>\<open>continue\<close> returns the state
  as it is. \<^verbatim>\<open>.to(device)\<close>, \<^verbatim>\<open>requires_grad = True\<close> and
  \<^verbatim>\<open>.squeeze().detach().cpu().numpy()\<close> do not change the elements of a tensor. Python
  looks the global name \<^verbatim>\<open>fgsm_attack\<close> up at each call, and the exercise replaces its
  body: the loop takes the function bound to that name as \<open>attack\<close>. The evaluation
  loop of the repository as it stands is the one with \<open>attack = fgsm_attack\<close>.
\<close>

definition test_body ::
  "(tensor \<Rightarrow> real \<Rightarrow> tensor \<Rightarrow> tensor) \<Rightarrow> ('p, 'g) torch \<Rightarrow> real \<Rightarrow> tensor \<times> label
   \<Rightarrow> ('p, 'g) loop_state \<Rightarrow> ('p, 'g) loop_state" where
  "test_body attack T epsilon pair st =
     (let data = fst pair; target = snd pair;
          output = forward T (params (model st)) data;
          init_pred = argmax output
      in if init_pred \<noteq> target then st
         else
           let m1 = (model st)\<lparr>grads := zero_grad T (grads (model st))\<rparr>;
               m2 = m1\<lparr>grads := backward T (params m1) data target (grads m1)\<rparr>;
               data_grad = input_grad T (params m2) data target;
               perturbed_data = attack data epsilon data_grad;
               output2 = forward T (params m2) perturbed_data;
               final_pred = argmax output2
           in if final_pred = target then
                (if epsilon = 0 \<and> length (adv_examples st) < 5
                 then st\<lparr>model := m2, correct := correct st + 1,
                         adv_examples := adv_examples st @ [(init_pred, final_pred, perturbed_data)]\<rparr>
                 else st\<lparr>model := m2, correct := correct st + 1\<rparr>)
              else
                (if length (adv_examples st) < 5
                 then st\<lparr>model := m2,
                         adv_examples := adv_examples st @ [(init_pred, final_pred, perturbed_data)]\<rparr>
                 else st\<lparr>model := m2\<rparr>))"

fun test_loop ::
  "(tensor \<Rightarrow> real \<Rightarrow> tensor \<Rightarrow> tensor) \<Rightarrow> ('p, 'g) torch \<Rightarrow> real \<Rightarrow> (tensor \<times> label) list
   \<Rightarrow> ('p, 'g) loop_state \<Rightarrow> ('p, 'g) loop_state" where
  "test_loop attack T epsilon [] st = st"
| "test_loop attack T epsilon (pair # rest) st =
     test_loop attack T epsilon rest (test_body attack T epsilon pair st)"

text \<open>
  \<^verbatim>\<open>test(model, device, test_loader, epsilon)\<close>, with the binding of the global
  \<^verbatim>\<open>fgsm_attack\<close> as first argument (\<open>test fgsm_attack\<close> is the function as the
  repository has it) and the library calls on the model as second: the loop from \<^verbatim>\<open>correct = 0\<close> and
  \<^verbatim>\<open>adv_examples = []\<close>, then \<^verbatim>\<open>final_acc = correct/float(len(test_loader))\<close>, which
  raises \<^verbatim>\<open>ZeroDivisionError\<close> on an empty loader (the batch size is 1, so the length
  of the loader is the number of pairs). The division is over the reals. The result is
  the model object after the loop, and the error or the pair
  \<^verbatim>\<open>(final_acc, adv_examples)\<close>. The line that \<^verbatim>\<open>print\<close>s is not modelled.
\<close>

definition test ::
  "(tensor \<Rightarrow> real \<Rightarrow> tensor \<Rightarrow> tensor) \<Rightarrow> ('p, 'g) torch \<Rightarrow> ('p, 'g) net
   \<Rightarrow> (tensor \<times> label) list \<Rightarrow> real \<Rightarrow> ('p, 'g) net \<times> (error + real \<times> example list)" where
  "test attack T m test_loader epsilon =
     (let st = test_loop attack T epsilon test_loader
                 \<lparr>model = m, correct = 0, adv_examples = []\<rparr>
      in (model st,
          if length test_loader = 0 then Inl ZeroDivisionError
          else Inr (real (correct st) / real (length test_loader), adv_examples st)))"

subsection \<open>What one pair contributes\<close>

text \<open>
  The values one iteration computes for a pair, as functions of the parameters, to state
  the properties of the loop: the initial prediction, the perturbed sample, the
  prediction on it, and the triple that may be saved. A pair is \<open>attacked\<close> when its
  initial prediction is the label; it \<open>survives\<close> when, attacked, its perturbed
  prediction is still the label; it is \<open>recorded\<close> when the loop's conditions for
  appending its triple hold, the cap apart.
\<close>

definition init_pred_of :: "('p, 'g) torch \<Rightarrow> 'p \<Rightarrow> tensor \<times> label \<Rightarrow> label" where
  "init_pred_of T p pair = argmax (forward T p (fst pair))"

definition perturbed_of ::
  "(tensor \<Rightarrow> real \<Rightarrow> tensor \<Rightarrow> tensor) \<Rightarrow> ('p, 'g) torch \<Rightarrow> 'p \<Rightarrow> real \<Rightarrow> tensor \<times> label
   \<Rightarrow> tensor" where
  "perturbed_of attack T p epsilon pair =
     attack (fst pair) epsilon (input_grad T p (fst pair) (snd pair))"

definition final_pred_of ::
  "(tensor \<Rightarrow> real \<Rightarrow> tensor \<Rightarrow> tensor) \<Rightarrow> ('p, 'g) torch \<Rightarrow> 'p \<Rightarrow> real \<Rightarrow> tensor \<times> label
   \<Rightarrow> label" where
  "final_pred_of attack T p epsilon pair =
     argmax (forward T p (perturbed_of attack T p epsilon pair))"

definition triple_of ::
  "(tensor \<Rightarrow> real \<Rightarrow> tensor \<Rightarrow> tensor) \<Rightarrow> ('p, 'g) torch \<Rightarrow> 'p \<Rightarrow> real \<Rightarrow> tensor \<times> label
   \<Rightarrow> example" where
  "triple_of attack T p epsilon pair =
     (init_pred_of T p pair, final_pred_of attack T p epsilon pair,
      perturbed_of attack T p epsilon pair)"

definition attacked :: "('p, 'g) torch \<Rightarrow> 'p \<Rightarrow> tensor \<times> label \<Rightarrow> bool" where
  "attacked T p pair = (init_pred_of T p pair = snd pair)"

definition survives ::
  "(tensor \<Rightarrow> real \<Rightarrow> tensor \<Rightarrow> tensor) \<Rightarrow> ('p, 'g) torch \<Rightarrow> 'p \<Rightarrow> real \<Rightarrow> tensor \<times> label
   \<Rightarrow> bool" where
  "survives attack T p epsilon pair =
     (attacked T p pair \<and> final_pred_of attack T p epsilon pair = snd pair)"

definition recorded ::
  "(tensor \<Rightarrow> real \<Rightarrow> tensor \<Rightarrow> tensor) \<Rightarrow> ('p, 'g) torch \<Rightarrow> 'p \<Rightarrow> real \<Rightarrow> tensor \<times> label
   \<Rightarrow> bool" where
  "recorded attack T p epsilon pair =
     (attacked T p pair \<and> (epsilon = 0 \<or> final_pred_of attack T p epsilon pair \<noteq> snd pair))"

subsection \<open>A one-weight network for the worked examples\<close>

text \<open>
  A network with one weight \<open>w\<close> and two classes, for the concrete runs below: the
  output vector of a sample is \<open>[1/2, w * (sum of its elements)]\<close> (class 1 is
  predicted when the second entry is the larger one), the
  gradient buffer is a number, and the gradient with respect to the input points away
  from the label's class.
\<close>

definition pixel_net :: "(real, real) torch" where
  "pixel_net =
     \<lparr>forward = (\<lambda>w x. [1/2, w * sum_list x]),
      zero_grad = (\<lambda>g. 0),
      backward = (\<lambda>w x t g. g + sum_list x),
      input_grad = (\<lambda>w x t. map (\<lambda>_. if t = 1 then - w else w) x)\<rparr>"

text \<open>
  A loader of four pairs for that network: with weight 1 the first and the third are
  classified as their label 1, the second is not (its initial prediction is 0), and the
  fourth is classified as its label 0. A second loader of six pairs, each classified as
  its label, exercises the cap on the saved examples.
\<close>

definition pixel_loader :: "(tensor \<times> label) list" where
  "pixel_loader = [([14/25], 1), ([2/5], 1), ([11/20], 1), ([1/5], 0)]"

definition pixel_loader6 :: "(tensor \<times> label) list" where
  "pixel_loader6 = [([3/5], 1), ([1/5], 0), ([7/10], 1), ([4/5], 1), ([1/10], 0), ([9/10], 1)]"

section \<open>Properties of the perturbation function\<close>

lemma clamp_unit_valid: "valid_sample sample \<Longrightarrow> clamp_unit sample = sample"
  unfolding valid_sample_def clamp_unit_def
  by (induction sample) (simp_all add: max_def min_def)

text \<open>
  Claim C1 says that \<^verbatim>\<open>fgsm_attack(sample, epsilon, gradient)\<close> is
  \<^verbatim>\<open>sample + epsilon * sign(gradient)\<close> clamped to \<open>[0,1]\<close>, and that the 1-pixel sample
  0.5 with gradient -0.2 and epsilon 0.1 gives 0.4. The source returns the sample as it
  came: at the specification's own example the result is 0.5, where the specification's
  formula gives 0.4.
\<close>

theorem fgsm_attack_example_unperturbed:
  "fgsm_attack [1/2] (1/10) [- 1/5] = [1/2]
   \<and> perturb_spec [1/2] (1/10) [- 1/5] = [2/5]
   \<and> fgsm_attack [1/2] (1/10) [- 1/5] \<noteq> perturb_spec [1/2] (1/10) [- 1/5]"
  by (simp add: fgsm_attack_def perturb_spec_def clamp_unit_def)

text \<open>
  Claim C5: for every sample and every gradient, \<^verbatim>\<open>fgsm_attack(sample, 0, gradient)\<close>
  equals the clamp of the sample to the valid input range. A sample is a tensor whose
  elements lie in \<open>[0,1]\<close> (the loader's \<^verbatim>\<open>transforms.ToTensor()\<close> scales the pixels to that
  range, and \<^verbatim>\<open>test\<close> is the only caller); on such a tensor the clamp changes nothing, and
  the result is the sample itself.
\<close>

theorem fgsm_attack_zero_valid:
  assumes "valid_sample sample"
  shows "fgsm_attack sample 0 data_grad = clamp_unit sample
         \<and> fgsm_attack sample 0 data_grad = sample"
  using clamp_unit_valid [OF assms] by (simp add: fgsm_attack_def)

theorem fgsm_attack_zero_valid_witness:
  "valid_sample [1/4, 1, 0]
   \<and> fgsm_attack [1/4, 1, 0] 0 [3, - 2, 0] = clamp_unit [1/4, 1, 0]
   \<and> fgsm_attack [1/4, 1, 0] 0 [3, - 2, 0] = [1/4, 1, 0]"
proof -
  have v: "valid_sample [1/4, 1, 0]"
    by (simp add: valid_sample_def)
  from fgsm_attack_zero_valid [OF v, of "[3, - 2, 0]"] v show ?thesis
    by blast
qed

text \<open>
  Claim C6 says that a larger epsilon moves each element further from the original
  sample, in the direction of the sign of the gradient element. The source does not read
  the epsilon: for the sample 0.5 and the gradient -0.2 the result is 0.5 with epsilon
  0.05 and with epsilon 0.1, where the specification's formula gives 0.45 and then 0.4.
  The element does not move at all, for the same placeholder body as in claim C1.
\<close>

theorem fgsm_attack_ignores_epsilon:
  "fgsm_attack [1/2] (1/20) [- 1/5] = [1/2]
   \<and> fgsm_attack [1/2] (1/10) [- 1/5] = [1/2]
   \<and> perturb_spec [1/2] (1/20) [- 1/5] = [9/20]
   \<and> perturb_spec [1/2] (1/10) [- 1/5] = [2/5]"
  by (simp add: fgsm_attack_def perturb_spec_def clamp_unit_def)

text \<open>
  Claim C9: as written in the source, \<^verbatim>\<open>fgsm_attack\<close> is the identity on its first
  argument, for every image, every epsilon and every gradient: no perturbation and no
  clamping is applied.
\<close>

theorem fgsm_attack_identity: "fgsm_attack img epsilon data_grad = img"
  by (simp add: fgsm_attack_def)

section \<open>Properties of the evaluation loop\<close>

subsection \<open>What the loop does to each part of its state\<close>

text \<open>
  The parameters are the same after an iteration and after the loop; so the predictions
  of every iteration are those at the parameters the loop started with.
\<close>

lemma test_body_params: "params (model (test_body attack T epsilon pair st)) = params (model st)"
  by (simp add: test_body_def Let_def)

lemma test_loop_params: "params (model (test_loop attack T epsilon loader st)) = params (model st)"
  by (induction loader arbitrary: st) (simp_all add: test_body_params)

lemma test_body_correct:
  "correct (test_body attack T epsilon pair st) =
     correct st + (if survives attack T (params (model st)) epsilon pair then 1 else 0)"
  by (simp add: test_body_def Let_def survives_def attacked_def init_pred_of_def
      final_pred_of_def perturbed_of_def)

lemma test_loop_correct:
  "correct (test_loop attack T epsilon loader st) =
     correct st + length (filter (survives attack T (params (model st)) epsilon) loader)"
  by (induction loader arbitrary: st) (simp_all add: test_body_params test_body_correct)

lemma test_body_adv_examples:
  "adv_examples (test_body attack T epsilon pair st) =
     (if recorded attack T (params (model st)) epsilon pair \<and> length (adv_examples st) < 5
      then adv_examples st @ [triple_of attack T (params (model st)) epsilon pair]
      else adv_examples st)"
  by (simp add: test_body_def Let_def recorded_def attacked_def init_pred_of_def
      final_pred_of_def perturbed_of_def triple_of_def)

lemma test_loop_adv_examples:
  "adv_examples (test_loop attack T epsilon loader st) =
     adv_examples st @ take (5 - length (adv_examples st))
       (map (triple_of attack T (params (model st)) epsilon)
            (filter (recorded attack T (params (model st)) epsilon) loader))"
proof (induction loader arbitrary: st)
  case Nil
  show ?case by simp
next
  case (Cons pair rest)
  show ?case
  proof (cases "recorded attack T (params (model st)) epsilon pair \<and> length (adv_examples st) < 5")
    case True
    then have "5 - length (adv_examples st) = Suc (5 - Suc (length (adv_examples st)))"
      by arith
    with True show ?thesis
      by (simp add: Cons.IH test_body_params test_body_adv_examples)
  next
    case False
    then show ?thesis
      by (auto simp add: Cons.IH test_body_params test_body_adv_examples)
  qed
qed

lemma test_result:
  "test attack T m test_loader epsilon =
     (m\<lparr>grads := grads (model (test_loop attack T epsilon test_loader
                                  \<lparr>model = m, correct = 0, adv_examples = []\<rparr>))\<rparr>,
      if test_loader = [] then Inl ZeroDivisionError
      else Inr (real (length (filter (survives attack T (params m) epsilon) test_loader))
                  / real (length test_loader),
                take 5 (map (triple_of attack T (params m) epsilon)
                          (filter (recorded attack T (params m) epsilon) test_loader))))"
proof -
  let ?st = "test_loop attack T epsilon test_loader \<lparr>model = m, correct = 0, adv_examples = []\<rparr>"
  have p: "params (model ?st) = params m"
    by (simp add: test_loop_params)
  have "model ?st = m\<lparr>grads := grads (model ?st)\<rparr>"
    using p by (cases "model ?st", cases m) simp
  moreover have "correct ?st = length (filter (survives attack T (params m) epsilon) test_loader)"
    by (simp add: test_loop_correct)
  moreover have "adv_examples ?st = take 5 (map (triple_of attack T (params m) epsilon)
                          (filter (recorded attack T (params m) epsilon) test_loader))"
    by (simp add: test_loop_adv_examples)
  ultimately show ?thesis
    by (simp add: test_def Let_def)
qed

text \<open>An empty loader: the loop does nothing and the division raises.\<close>

lemma test_empty_loader: "snd (test attack T m [] epsilon) = Inl ZeroDivisionError"
  by (simp add: test_def)

text \<open>The definitions that a concrete run of the one-weight network unfolds.\<close>

lemmas pixel_eval = pixel_net_def pixel_loader_def pixel_loader6_def fgsm_formula_def
  fgsm_attack_def survives_def recorded_def attacked_def init_pred_of_def final_pred_of_def
  perturbed_of_def triple_of_def argmax_def sgn_if

subsection \<open>The claims about the loop\<close>

text \<open>
  Claim C4: a pair whose initial prediction is not its label is skipped entirely. The
  iteration returns the state it was given: the gradient buffers of the model are not
  written (no backward pass), the counter \<^verbatim>\<open>correct\<close> and the list \<^verbatim>\<open>adv_examples\<close> are as
  before, and the loop goes on with the next pair from that same state. The loss, the
  perturbation and the second forward pass are computed only in the other branch.
\<close>

theorem test_body_skips_misclassified:
  assumes "init_pred_of T (params (model st)) pair \<noteq> snd pair"
  shows "test_body attack T epsilon pair st = st
         \<and> test_loop attack T epsilon (pair # rest) st = test_loop attack T epsilon rest st"
  using assms by (simp add: test_body_def Let_def init_pred_of_def)

theorem test_body_skips_misclassified_witness:
  "init_pred_of pixel_net (params (model
       \<lparr>model = \<lparr>params = 1, grads = 7 :: real\<rparr>, correct = 2,
          adv_examples = [(1, 0, [1/2])]\<rparr>))
     ([2/5], 1) \<noteq> snd ([2/5 :: real], 1 :: nat)
   \<and> test_body fgsm_attack pixel_net (1/10) ([2/5], 1)
       \<lparr>model = \<lparr>params = 1, grads = 7\<rparr>, correct = 2, adv_examples = [(1, 0, [1/2])]\<rparr>
     = \<lparr>model = \<lparr>params = 1, grads = 7\<rparr>, correct = 2, adv_examples = [(1, 0, [1/2])]\<rparr>"
proof -
  let ?st = "\<lparr>model = \<lparr>params = 1 :: real, grads = 7 :: real\<rparr>, correct = 2,
              adv_examples = [(1, 0, [1/2])]\<rparr>"
  have h: "init_pred_of pixel_net (params (model ?st)) ([2/5], 1) \<noteq> snd ([2/5 :: real], 1 :: nat)"
    by (simp add: pixel_eval)
  from test_body_skips_misclassified [OF h, of fgsm_attack "1/10" "[]"] h show ?thesis
    by blast
qed

text \<open>
  Claim C8: running \<^verbatim>\<open>test\<close>, for any epsilon, any loader and any binding of the attack,
  leaves the parameters of the model as they were. (The gradient buffers do change:
  \<^verbatim>\<open>zero_grad\<close> and \<^verbatim>\<open>backward\<close> write them for every attacked pair, as the concrete run
  after the theorem shows.)
\<close>

theorem test_params_unchanged: "params (fst (test attack T m test_loader epsilon)) = params m"
  by (simp add: test_def Let_def test_loop_params)

theorem test_params_unchanged_witness:
  "params (fst (test fgsm_formula pixel_net \<lparr>params = 1, grads = 7\<rparr> pixel_loader (1/10))) = 1
   \<and> grads (fst (test fgsm_formula pixel_net \<lparr>params = 1, grads = 7\<rparr> pixel_loader (1/10))) = 1/5"
proof -
  have "grads (fst (test fgsm_formula pixel_net \<lparr>params = 1, grads = 7\<rparr> pixel_loader (1/10))) = 1/5"
    by (simp add: test_def test_body_def Let_def pixel_eval)
  with test_params_unchanged [of fgsm_formula pixel_net "\<lparr>params = 1, grads = 7\<rparr>" pixel_loader "1/10"]
  show ?thesis by simp
qed

text \<open>
  Claim C2: on a loader that is not empty, \<^verbatim>\<open>test\<close> returns, and the accuracy it returns
  is the number of pairs whose initial prediction is the label and whose perturbed
  prediction is still the label, divided by the number of all pairs of the loader: a
  pair whose initial prediction is wrong is not in the numerator and is in the
  denominator.
\<close>

theorem test_accuracy:
  assumes "test_loader \<noteq> []"
  shows "\<exists>exs. snd (test attack T m test_loader epsilon) =
           Inr (real (length (filter (survives attack T (params m) epsilon) test_loader))
                  / real (length test_loader), exs)"
  using assms by (simp add: test_result)

theorem test_accuracy_witness:
  "pixel_loader \<noteq> []
   \<and> (\<exists>exs. snd (test fgsm_formula pixel_net \<lparr>params = 1, grads = 7\<rparr> pixel_loader (1/10))
              = Inr (1/4, exs))
   \<and> length (filter (survives fgsm_formula pixel_net 1 (1/10)) pixel_loader) = 1
   \<and> length pixel_loader = 4"
proof -
  have h: "pixel_loader \<noteq> []"
    by (simp add: pixel_loader_def)
  have n: "length (filter (survives fgsm_formula pixel_net 1 (1/10)) pixel_loader) = 1"
    by (simp add: pixel_eval)
  have d: "length pixel_loader = 4"
    by (simp add: pixel_loader_def)
  from test_accuracy [OF h, of fgsm_formula pixel_net "\<lparr>params = 1, grads = 7\<rparr>" "1/10"]
  have "\<exists>exs. snd (test fgsm_formula pixel_net \<lparr>params = 1, grads = 7\<rparr> pixel_loader (1/10))
              = Inr (1/4, exs)"
    by (simp add: n d)
  with h n d show ?thesis by blast
qed

text \<open>
  Claim C3, as stated, says that up to five triples are collected whether the attack on
  a pair succeeded or failed. In the source, with an epsilon other than 0, a pair whose
  perturbed prediction is still the label is not collected: the guard of that branch is
  \<^verbatim>\<open>(epsilon == 0) and (len(adv_examples) < 5)\<close>. Here one pair is attacked, its
  prediction stays the label, and no triple is saved.
\<close>

theorem test_saves_no_surviving_example:
  "snd (test fgsm_attack pixel_net \<lparr>params = 1, grads = 0\<rparr> [([3/5], 1)] (1/10)) = Inr (1, [])
   \<and> take 5 (map (triple_of fgsm_attack pixel_net 1 (1/10))
               (filter (attacked pixel_net 1) [([3/5], 1)])) = [(1, 1, [3/5])]"
  by (simp add: test_def test_body_def Let_def pixel_eval)

text \<open>
  Claim C3, amended: for every epsilon and every loader, the saved examples are the
  triples (original prediction, new prediction, perturbed sample) of the first five, or
  of all when there are fewer, of the attacked pairs whose perturbed prediction differs
  from the label, and, only when epsilon is 0, also of those whose perturbed prediction is
  still the label, in the order of the loader; at most five are held.
\<close>

theorem test_adv_examples:
  assumes "snd (test attack T m test_loader epsilon) = Inr (final_acc, exs)"
  shows "exs = take 5 (map (triple_of attack T (params m) epsilon)
                         (filter (recorded attack T (params m) epsilon) test_loader))
         \<and> length exs \<le> 5"
  using assms by (auto simp add: test_result split: if_splits)

theorem test_adv_examples_witness:
  "snd (test fgsm_attack pixel_net \<lparr>params = 1, grads = 7\<rparr> pixel_loader6 0)
     = Inr (1, [(1, 1, [3/5]), (0, 0, [1/5]), (1, 1, [7/10]), (1, 1, [4/5]), (0, 0, [1/10])])
   \<and> [(1, 1, [3/5]), (0, 0, [1/5]), (1, 1, [7/10]), (1, 1, [4/5]), (0, 0, [1/10])]
     = take 5 (map (triple_of fgsm_attack pixel_net 1 0)
                 (filter (recorded fgsm_attack pixel_net 1 0) pixel_loader6))
   \<and> length (filter (recorded fgsm_attack pixel_net 1 0) pixel_loader6) = 6"
proof -
  have r: "snd (test fgsm_attack pixel_net \<lparr>params = 1, grads = 7\<rparr> pixel_loader6 0)
     = Inr (1, [(1, 1, [3/5]), (0, 0, [1/5]), (1, 1, [7/10]), (1, 1, [4/5]), (0, 0, [1/10])])"
    by (simp add: test_def test_body_def Let_def pixel_eval)
  have n: "length (filter (recorded fgsm_attack pixel_net 1 0) pixel_loader6) = 6"
    by (simp add: pixel_eval)
  from test_adv_examples [OF r] r n show ?thesis
    by simp
qed

text \<open>
  Claim C10: with an epsilon other than 0, every saved triple is the triple of a pair of
  the loader that was attacked and whose perturbed prediction differs from its label, so
  its two predictions differ; no saved triple is the triple of a pair whose perturbed
  prediction is still the label (such triples are saved with epsilon 0 only).
\<close>

theorem test_adv_examples_changed:
  assumes "epsilon \<noteq> 0"
    and "snd (test attack T m test_loader epsilon) = Inr (final_acc, exs)"
    and "ex \<in> set exs"
  shows "(\<exists>pair \<in> set test_loader.
            ex = triple_of attack T (params m) epsilon pair
            \<and> init_pred_of T (params m) pair = snd pair
            \<and> final_pred_of attack T (params m) epsilon pair \<noteq> snd pair)
         \<and> fst (snd ex) \<noteq> fst ex
         \<and> \<not> (\<exists>pair. survives attack T (params m) epsilon pair
                      \<and> ex = triple_of attack T (params m) epsilon pair)"
proof -
  from assms(2) have "exs = take 5 (map (triple_of attack T (params m) epsilon)
                         (filter (recorded attack T (params m) epsilon) test_loader))"
    by (simp add: test_result split: if_splits)
  with assms(3) have "ex \<in> set (map (triple_of attack T (params m) epsilon)
                         (filter (recorded attack T (params m) epsilon) test_loader))"
    by (auto dest: in_set_takeD)
  then obtain pair where p: "pair \<in> set test_loader"
      "recorded attack T (params m) epsilon pair"
      "ex = triple_of attack T (params m) epsilon pair"
    by auto
  from p(2) assms(1) have a: "init_pred_of T (params m) pair = snd pair"
    and f: "final_pred_of attack T (params m) epsilon pair \<noteq> snd pair"
    by (simp_all add: recorded_def attacked_def)
  from a f p(3) have d: "fst (snd ex) \<noteq> fst ex"
    by (simp add: triple_of_def)
  have "\<not> (\<exists>q. survives attack T (params m) epsilon q
                      \<and> ex = triple_of attack T (params m) epsilon q)"
    using d by (auto simp add: survives_def attacked_def triple_of_def)
  with p a f d show ?thesis by blast
qed

theorem test_adv_examples_changed_witness:
  "(1/10 :: real) \<noteq> 0
   \<and> snd (test fgsm_formula pixel_net \<lparr>params = 1, grads = 7\<rparr> pixel_loader (1/10))
       = Inr (1/4, [(1, 0, [23/50]), (1, 0, [9/20])])
   \<and> (1, 0, [9/20]) \<in> set [(1 :: nat, 0 :: nat, [23/50 :: real]), (1, 0, [9/20])]
   \<and> (\<exists>pair \<in> set pixel_loader.
         (1, 0, [9/20]) = triple_of fgsm_formula pixel_net 1 (1/10) pair
         \<and> init_pred_of pixel_net 1 pair = snd pair
         \<and> final_pred_of fgsm_formula pixel_net 1 (1/10) pair \<noteq> snd pair)"
proof -
  have e: "(1/10 :: real) \<noteq> 0" by simp
  have r: "snd (test fgsm_formula pixel_net \<lparr>params = 1, grads = 7\<rparr> pixel_loader (1/10))
       = Inr (1/4, [(1, 0, [23/50]), (1, 0, [9/20])])"
    by (simp add: test_def test_body_def Let_def pixel_eval)
  have i: "(1, 0, [9/20]) \<in> set [(1 :: nat, 0 :: nat, [23/50 :: real]), (1, 0, [9/20])]"
    by simp
  from test_adv_examples_changed [OF e r i] e r i show ?thesis
    by simp
qed

end
